theory Spec2Isabelle
  imports Complex_Main "HOL-Library.Sublist"
begin

section \<open>Configuration (src/config.py)\<close>

text \<open>
  The attributes of \<open>Config\<close> that the media pipeline and the USB gadget read.
  \<open>PIPELINE_BUFFER_SIZE\<close> is a natural number: \<open>deque(maxlen=n)\<close> raises for a
  negative \<open>n\<close>, so no pipeline object exists for such a configuration.
\<close>

record config =
  VIDEO_WIDTH :: int
  VIDEO_HEIGHT :: int
  VIDEO_FRAMERATE :: int
  VIDEO_CODEC :: string
  AUDIO_ENABLED :: bool
  AUDIO_CHANNELS :: int
  AUDIO_SAMPLE_RATE :: int
  UVC_DEVICE_NAME :: string
  PIPELINE_BUFFER_SIZE :: nat

definition default_config :: config where
  "default_config =
     \<lparr>VIDEO_WIDTH = 1280, VIDEO_HEIGHT = 720, VIDEO_FRAMERATE = 30,
      VIDEO_CODEC = ''H264'', AUDIO_ENABLED = True, AUDIO_CHANNELS = 1,
      AUDIO_SAMPLE_RATE = 48000, UVC_DEVICE_NAME = ''WebRTCam Video'',
      PIPELINE_BUFFER_SIZE = 5\<rparr>"

section \<open>Media pipeline (src/modules/media\_pipeline.py)\<close>

subsection \<open>State of a \<open>MediaPipeline\<close> object\<close>

text \<open>
  A codec context of the external codec library: the name and mode it was created with
  and the attributes the pipeline sets on it.
\<close>

record codec_context =
  cc_name :: string
  cc_mode :: string
  cc_width :: "int option"
  cc_height :: "int option"
  cc_bit_rate :: "int option"
  cc_pix_fmt :: "string option"
  cc_framerate :: "int option"
  cc_sample_rate :: "int option"
  cc_channels :: "int option"

datatype media_kind = Video | Audio

text \<open>
  The fields of \<open>MediaPipeline\<close>, the two stats dictionaries flattened into fields.
  \<open>'f\<close> is the type of frames and \<open>'t\<close> the type of track objects (compared by
  \<open>==\<close>). \<open>usb_gadget_set\<close> says whether \<open>self.usb_gadget\<close> holds a gadget.
  \<open>frame_listeners\<close> lists the \<open>on_frame\<close> callbacks the pipeline has registered
  on track objects with \<open>track.on("frame")\<close>. The last two fields are the part of the
  asyncio event loop the pipeline acts on: the tasks that were created and have not
  finished, and the number of tasks created so far, which names the next task.
\<close>

record ('f, 't) media_pipeline =
  running :: bool
  usb_gadget_set :: bool
  video_track :: "'t option"
  video_frame_queue :: "'f list"
  frames_received :: nat
  frames_dropped :: nat
  last_frame_time :: real
  current_fps :: real
  audio_track :: "'t option"
  audio_sample_queue :: "'f list"
  samples_received :: nat
  samples_dropped :: nat
  last_sample_time :: real
  video_encoder :: "codec_context option"
  video_decoder :: "codec_context option"
  audio_encoder :: "codec_context option"
  audio_decoder :: "codec_context option"
  video_task :: "nat option"
  audio_task :: "nat option"
  frame_listeners :: "('t \<times> media_kind) list"
  loop_tasks :: "(nat \<times> media_kind) list"
  tasks_created :: nat

text \<open>\<open>MediaPipeline.__init__\<close>\<close>

definition init :: "config \<Rightarrow> ('f, 't) media_pipeline" where
  "init cfg =
     \<lparr>running = False, usb_gadget_set = False,
      video_track = None, video_frame_queue = [],
      frames_received = 0, frames_dropped = 0, last_frame_time = 0, current_fps = 0,
      audio_track = None, audio_sample_queue = [],
      samples_received = 0, samples_dropped = 0, last_sample_time = 0,
      video_encoder = None, video_decoder = None,
      audio_encoder = None, audio_decoder = None,
      video_task = None, audio_task = None, frame_listeners = [],
      loop_tasks = [], tasks_created = 0\<rparr>"

subsection \<open>The bounded queues\<close>

text \<open>
  \<open>deque.append\<close> on a deque with \<open>maxlen\<close>: the element is appended on the right and,
  if the deque is then longer than \<open>maxlen\<close>, one element is removed on the left.
\<close>

definition deque_append :: "nat \<Rightarrow> 'a list \<Rightarrow> 'a \<Rightarrow> 'a list" where
  "deque_append maxlen q x =
     (let q' = q @ [x] in if maxlen < length q' then tl q' else q')"

text \<open>The capacities given to the two deques in \<open>__init__\<close>.\<close>

definition video_maxlen :: "config \<Rightarrow> nat" where
  "video_maxlen cfg = PIPELINE_BUFFER_SIZE cfg"

definition audio_maxlen :: "config \<Rightarrow> nat" where
  "audio_maxlen cfg = PIPELINE_BUFFER_SIZE cfg * 10"

subsection \<open>The arrival callbacks\<close>

text \<open>
  \<open>on_frame\<close> of \<open>add_video_track\<close>; \<open>now\<close> is the value \<open>time.time()\<close> returns in
  the call. Floating-point numbers are modelled as reals.
\<close>

definition video_on_frame ::
  "config \<Rightarrow> real \<Rightarrow> 'f \<Rightarrow> ('f, 't) media_pipeline \<Rightarrow> ('f, 't) media_pipeline" where
  "video_on_frame cfg now frame s =
     (if PIPELINE_BUFFER_SIZE cfg \<le> length (video_frame_queue s)
      then s\<lparr>frames_dropped := frames_dropped s + 1\<rparr>
      else
        let dt = (if 0 < last_frame_time s then now - last_frame_time s else 1);
            alpha = 0.1;
            new_fps = (if 0 < dt then 1 / dt else 0)
        in s\<lparr>video_frame_queue :=
                 deque_append (video_maxlen cfg) (video_frame_queue s) frame,
               frames_received := frames_received s + 1,
               last_frame_time := now,
               current_fps :=
                 (if current_fps s = 0 then new_fps
                  else alpha * new_fps + (1 - alpha) * current_fps s)\<rparr>)"

text \<open>\<open>on_frame\<close> of \<open>add_audio_track\<close>.\<close>

definition audio_on_frame ::
  "config \<Rightarrow> real \<Rightarrow> 'f \<Rightarrow> ('f, 't) media_pipeline \<Rightarrow> ('f, 't) media_pipeline" where
  "audio_on_frame cfg now frame s =
     (if audio_maxlen cfg \<le> length (audio_sample_queue s)
      then s\<lparr>samples_dropped := samples_dropped s + 1\<rparr>
      else s\<lparr>audio_sample_queue :=
                 deque_append (audio_maxlen cfg) (audio_sample_queue s) frame,
               samples_received := samples_received s + 1,
               last_sample_time := now\<rparr>)"

text \<open>
  \<open>popleft\<close> as the processing tasks use it, only on a queue that is not empty.
\<close>

definition video_popleft :: "('f, 't) media_pipeline \<Rightarrow> ('f, 't) media_pipeline" where
  "video_popleft s =
     (if video_frame_queue s = [] then s
      else s\<lparr>video_frame_queue := tl (video_frame_queue s)\<rparr>)"

definition audio_popleft :: "('f, 't) media_pipeline \<Rightarrow> ('f, 't) media_pipeline" where
  "audio_popleft s =
     (if audio_sample_queue s = [] then s
      else s\<lparr>audio_sample_queue := tl (audio_sample_queue s)\<rparr>)"

subsection \<open>Sequences of arrivals\<close>

text \<open>
  What happens to the queues of a pipeline over time: a sample of either kind arrives
  through its callback (with the clock value of the call), or a processing task takes
  the oldest sample of a queue.
\<close>

datatype 'f queue_event =
    VideoArrival real 'f
  | AudioArrival real 'f
  | VideoTake
  | AudioTake

fun queue_step ::
  "config \<Rightarrow> 'f queue_event \<Rightarrow> ('f, 't) media_pipeline \<Rightarrow> ('f, 't) media_pipeline" where
  "queue_step cfg (VideoArrival now f) s = video_on_frame cfg now f s"
| "queue_step cfg (AudioArrival now f) s = audio_on_frame cfg now f s"
| "queue_step cfg VideoTake s = video_popleft s"
| "queue_step cfg AudioTake s = audio_popleft s"

fun queue_run ::
  "config \<Rightarrow> 'f queue_event list \<Rightarrow> ('f, 't) media_pipeline \<Rightarrow> ('f, 't) media_pipeline" where
  "queue_run cfg [] s = s"
| "queue_run cfg (e # es) s = queue_run cfg es (queue_step cfg e s)"

text \<open>Every state the pipeline goes through, the first one included.\<close>

fun queue_states ::
  "config \<Rightarrow> 'f queue_event list \<Rightarrow> ('f, 't) media_pipeline \<Rightarrow> ('f, 't) media_pipeline list" where
  "queue_states cfg [] s = [s]"
| "queue_states cfg (e # es) s = s # queue_states cfg es (queue_step cfg e s)"

text \<open>
  The arrivals of a kind that find their queue at capacity, counted along the run
  without looking at the counters.
\<close>

fun video_rejected ::
  "config \<Rightarrow> 'f queue_event list \<Rightarrow> ('f, 't) media_pipeline \<Rightarrow> nat" where
  "video_rejected cfg [] s = 0"
| "video_rejected cfg (e # es) s =
     (case e of
        VideoArrival now f \<Rightarrow>
          (if video_maxlen cfg \<le> length (video_frame_queue s) then 1 else 0)
      | _ \<Rightarrow> 0)
     + video_rejected cfg es (queue_step cfg e s)"

fun audio_rejected ::
  "config \<Rightarrow> 'f queue_event list \<Rightarrow> ('f, 't) media_pipeline \<Rightarrow> nat" where
  "audio_rejected cfg [] s = 0"
| "audio_rejected cfg (e # es) s =
     (case e of
        AudioArrival now f \<Rightarrow>
          (if audio_maxlen cfg \<le> length (audio_sample_queue s) then 1 else 0)
      | _ \<Rightarrow> 0)
     + audio_rejected cfg es (queue_step cfg e s)"

text \<open>Both queues within their capacities.\<close>

definition queues_bounded :: "config \<Rightarrow> ('f, 't) media_pipeline \<Rightarrow> bool" where
  "queues_bounded cfg s \<longleftrightarrow>
     length (video_frame_queue s) \<le> video_maxlen cfg \<and>
     length (audio_sample_queue s) \<le> audio_maxlen cfg"


subsection \<open>The smoothed rate as the specification words it\<close>

text \<open>
  The instantaneous rate of an inter-arrival delta, the exponential moving average with
  smoothing factor \<open>0.1\<close> run over the remaining deltas, and the rate after deltas
  \<open>d1..dn\<close>: the average seeded with the instantaneous rate of \<open>d1\<close>.
\<close>

definition instant_rate :: "real \<Rightarrow> real" where
  "instant_rate dt = (if dt \<le> 0 then 0 else 1 / dt)"

fun ema_from :: "real \<Rightarrow> real list \<Rightarrow> real" where
  "ema_from smoothed [] = smoothed"
| "ema_from smoothed (d # ds) = ema_from (0.1 * instant_rate d + 0.9 * smoothed) ds"

definition spec_smoothed_rate :: "real list \<Rightarrow> real" where
  "spec_smoothed_rate ds =
     (case ds of [] \<Rightarrow> 0 | d1 # rest \<Rightarrow> ema_from (instant_rate d1) rest)"

text \<open>
  The inter-arrival deltas of a sequence of arrival times: the first delta is forced to
  \<open>1\<close>, every later one is the difference to the arrival before.
\<close>

fun deltas_after :: "real \<Rightarrow> real list \<Rightarrow> real list" where
  "deltas_after t [] = []"
| "deltas_after t (x # xs) = (x - t) # deltas_after x xs"

definition inter_arrival_deltas :: "real list \<Rightarrow> real list" where
  "inter_arrival_deltas ts =
     (case ts of [] \<Rightarrow> [] | t1 # rest \<Rightarrow> 1 # deltas_after t1 rest)"

text \<open>The clock values of the video arrivals of a run that were enqueued.\<close>

fun video_enqueue_times ::
  "config \<Rightarrow> 'f queue_event list \<Rightarrow> ('f, 't) media_pipeline \<Rightarrow> real list" where
  "video_enqueue_times cfg [] s = []"
| "video_enqueue_times cfg (e # es) s =
     (case e of
        VideoArrival now f \<Rightarrow>
          (if video_maxlen cfg \<le> length (video_frame_queue s) then [] else [now])
      | _ \<Rightarrow> [])
     @ video_enqueue_times cfg es (queue_step cfg e s)"

subsection \<open>Tracks\<close>

definition add_video_track ::
  "'t \<Rightarrow> ('f, 't) media_pipeline \<Rightarrow> ('f, 't) media_pipeline" where
  "add_video_track track s =
     s\<lparr>video_track := Some track,
       frame_listeners := frame_listeners s @ [(track, Video)]\<rparr>"

definition remove_video_track ::
  "'t \<Rightarrow> ('f, 't) media_pipeline \<Rightarrow> ('f, 't) media_pipeline" where
  "remove_video_track track s =
     (if video_track s = Some track then s\<lparr>video_track := None\<rparr> else s)"

definition add_audio_track ::
  "config \<Rightarrow> 't \<Rightarrow> ('f, 't) media_pipeline \<Rightarrow> ('f, 't) media_pipeline" where
  "add_audio_track cfg track s =
     (if \<not> AUDIO_ENABLED cfg then s
      else s\<lparr>audio_track := Some track,
             frame_listeners := frame_listeners s @ [(track, Audio)]\<rparr>)"

definition remove_audio_track ::
  "config \<Rightarrow> 't \<Rightarrow> ('f, 't) media_pipeline \<Rightarrow> ('f, 't) media_pipeline" where
  "remove_audio_track cfg track s =
     (if \<not> AUDIO_ENABLED cfg then s
      else if audio_track s = Some track then s\<lparr>audio_track := None\<rparr> else s)"

definition set_usb_gadget :: "('f, 't) media_pipeline \<Rightarrow> ('f, 't) media_pipeline" where
  "set_usb_gadget s = s\<lparr>usb_gadget_set := True\<rparr>"

subsection \<open>\<open>start\<close> and \<open>stop\<close>\<close>

text \<open>
  \<open>av.CodecContext.create(name, mode)\<close>: the codec library decides which codecs exist
  (\<open>avail\<close>); creating a context for a codec it does not have raises.
\<close>

definition create_codec ::
  "(string \<Rightarrow> string \<Rightarrow> bool) \<Rightarrow> string \<Rightarrow> string \<Rightarrow> codec_context option" where
  "create_codec avail name mode =
     (if avail name mode
      then Some \<lparr>cc_name = name, cc_mode = mode, cc_width = None, cc_height = None,
                 cc_bit_rate = None, cc_pix_fmt = None, cc_framerate = None,
                 cc_sample_rate = None, cc_channels = None\<rparr>
      else None)"

text \<open>
  The video codec part of \<open>start\<close>. The flag is False when a creation raised; the
  assignments made before it stay.
\<close>

definition setup_video_codecs ::
  "(string \<Rightarrow> string \<Rightarrow> bool) \<Rightarrow> config \<Rightarrow> ('f, 't) media_pipeline
     \<Rightarrow> bool \<times> ('f, 't) media_pipeline" where
  "setup_video_codecs avail cfg s =
     (case create_codec avail
             (if VIDEO_CODEC cfg = ''H264'' then ''h264_omx'' else ''libx264'') ''w'' of
        None \<Rightarrow> (False, s)
      | Some enc \<Rightarrow>
          let s1 = s\<lparr>video_encoder :=
                       Some (enc\<lparr>cc_width := Some (VIDEO_WIDTH cfg),
                                  cc_height := Some (VIDEO_HEIGHT cfg),
                                  cc_bit_rate := Some 2000000,
                                  cc_pix_fmt := Some ''yuv420p'',
                                  cc_framerate := Some (VIDEO_FRAMERATE cfg)\<rparr>)\<rparr>
          in (case create_codec avail ''h264'' ''r'' of
                None \<Rightarrow> (False, s1)
              | Some dec \<Rightarrow> (True, s1\<lparr>video_decoder := Some dec\<rparr>)))"

text \<open>The audio codec part of \<open>start\<close>.\<close>

definition setup_audio_codecs ::
  "(string \<Rightarrow> string \<Rightarrow> bool) \<Rightarrow> config \<Rightarrow> ('f, 't) media_pipeline
     \<Rightarrow> bool \<times> ('f, 't) media_pipeline" where
  "setup_audio_codecs avail cfg s =
     (if \<not> AUDIO_ENABLED cfg then (True, s)
      else
        case create_codec avail ''pcm_s16le'' ''w'' of
          None \<Rightarrow> (False, s)
        | Some enc \<Rightarrow>
            let s1 = s\<lparr>audio_encoder :=
                         Some (enc\<lparr>cc_sample_rate := Some (AUDIO_SAMPLE_RATE cfg),
                                    cc_channels := Some (AUDIO_CHANNELS cfg)\<rparr>)\<rparr>
            in (case create_codec avail ''opus'' ''r'' of
                  None \<Rightarrow> (False, s1)
                | Some dec \<Rightarrow>
                    (True,
                     s1\<lparr>audio_decoder :=
                          Some (dec\<lparr>cc_sample_rate := Some (AUDIO_SAMPLE_RATE cfg),
                                     cc_channels := Some (AUDIO_CHANNELS cfg)\<rparr>)\<rparr>)))"

text \<open>\<open>asyncio.create_task\<close>: a new task enters the event loop.\<close>

definition create_task ::
  "media_kind \<Rightarrow> ('f, 't) media_pipeline \<Rightarrow> nat \<times> ('f, 't) media_pipeline" where
  "create_task kind s =
     (tasks_created s,
      s\<lparr>loop_tasks := loop_tasks s @ [(tasks_created s, kind)],
        tasks_created := tasks_created s + 1\<rparr>)"

text \<open>
  \<open>MediaPipeline.start\<close>. Every exception of the body is caught and turned into the
  result False, so the result is a boolean and the state reached.
\<close>

definition start ::
  "(string \<Rightarrow> string \<Rightarrow> bool) \<Rightarrow> config \<Rightarrow> ('f, 't) media_pipeline
     \<Rightarrow> bool \<times> ('f, 't) media_pipeline" where
  "start avail cfg s =
     (let (ok1, s1) = setup_video_codecs avail cfg s in
      if \<not> ok1 then (False, s1)
      else
        let (ok2, s2) = setup_audio_codecs avail cfg s1 in
        if \<not> ok2 then (False, s2)
        else
          let (vtask, s3) = create_task Video s2;
              s4 = s3\<lparr>video_task := Some vtask\<rparr>;
              s5 = (if AUDIO_ENABLED cfg
                    then (let (atask, s') = create_task Audio s4
                          in s'\<lparr>audio_task := Some atask\<rparr>)
                    else s4)
          in (True, s5\<lparr>running := True\<rparr>))"

text \<open>
  \<open>task.cancel()\<close> followed by \<open>await task\<close>, the \<open>CancelledError\<close> swallowed: the
  task leaves the event loop. Without a task nothing happens.
\<close>

definition cancel_task ::
  "nat option \<Rightarrow> ('f, 't) media_pipeline \<Rightarrow> ('f, 't) media_pipeline" where
  "cancel_task task s =
     (case task of
        None \<Rightarrow> s
      | Some i \<Rightarrow> s\<lparr>loop_tasks := filter (\<lambda>(j, k). j \<noteq> i) (loop_tasks s)\<rparr>)"

text \<open>\<open>MediaPipeline.stop\<close>\<close>

definition stop :: "('f, 't) media_pipeline \<Rightarrow> bool \<times> ('f, 't) media_pipeline" where
  "stop s =
     (let s1 = s\<lparr>running := False\<rparr>;
          s2 = cancel_task (video_task s1) s1;
          s3 = cancel_task (audio_task s2) s2
      in (True,
          s3\<lparr>video_frame_queue := [], audio_sample_queue := [],
             video_track := None, audio_track := None\<rparr>))"

subsection \<open>Status\<close>

text \<open>
  \<open>round(x, 1)\<close> on the real value: to the nearest tenth, a tie to the even one.
\<close>

definition round1 :: "real \<Rightarrow> real" where
  "round1 x =
     (let y = x * 10; f = \<lfloor>y\<rfloor>; r = y - of_int f
      in of_int (if r < 1 / 2 then f
                 else if 1 / 2 < r then f + 1
                 else if even f then f else f + 1) / 10)"

record video_status =
  vs_track_active :: bool
  vs_frames_received :: nat
  vs_frames_dropped :: nat
  vs_fps :: real
  vs_queue_size :: nat

record audio_status =
  as_enabled :: bool
  as_track_active :: bool
  as_samples_received :: nat
  as_samples_dropped :: nat
  as_queue_size :: nat

record pipeline_status =
  st_running :: bool
  st_video :: video_status
  st_audio :: audio_status

definition get_status :: "config \<Rightarrow> ('f, 't) media_pipeline \<Rightarrow> pipeline_status" where
  "get_status cfg s =
     \<lparr>st_running = running s,
      st_video =
        \<lparr>vs_track_active = (video_track s \<noteq> None),
         vs_frames_received = frames_received s,
         vs_frames_dropped = frames_dropped s,
         vs_fps = round1 (current_fps s),
         vs_queue_size = length (video_frame_queue s)\<rparr>,
      st_audio =
        \<lparr>as_enabled = AUDIO_ENABLED cfg,
         as_track_active = (if AUDIO_ENABLED cfg then audio_track s \<noteq> None else False),
         as_samples_received = (if AUDIO_ENABLED cfg then samples_received s else 0),
         as_samples_dropped = (if AUDIO_ENABLED cfg then samples_dropped s else 0),
         as_queue_size =
           (if AUDIO_ENABLED cfg then length (audio_sample_queue s) else 0)\<rparr>\<rparr>"

subsection \<open>States a pipeline can be in\<close>

text \<open>
  The states of a pipeline built by \<open>__init__\<close> with a configuration and then used
  through its methods and callbacks, the configuration staying as it is.
\<close>

inductive reachable :: "config \<Rightarrow> ('f, 't) media_pipeline \<Rightarrow> bool" for cfg where
  r_init: "reachable cfg (init cfg)"
| r_start: "reachable cfg s \<Longrightarrow> reachable cfg (snd (start avail cfg s))"
| r_stop: "reachable cfg s \<Longrightarrow> reachable cfg (snd (stop s))"
| r_add_video: "reachable cfg s \<Longrightarrow> reachable cfg (add_video_track t s)"
| r_remove_video: "reachable cfg s \<Longrightarrow> reachable cfg (remove_video_track t s)"
| r_add_audio: "reachable cfg s \<Longrightarrow> reachable cfg (add_audio_track cfg t s)"
| r_remove_audio: "reachable cfg s \<Longrightarrow> reachable cfg (remove_audio_track cfg t s)"
| r_set_gadget: "reachable cfg s \<Longrightarrow> reachable cfg (set_usb_gadget s)"
| r_queue: "reachable cfg s \<Longrightarrow> reachable cfg (queue_step cfg e s)"

section \<open>USB gadget (src/modules/usb\_gadget.py)\<close>

subsection \<open>The operating system as the gadget sees it\<close>

type_synonym bytes = "nat list"

text \<open>\<open>/dev/video{i}\<close> and \<open>/dev/snd/pcmC{i}D0p\<close>; an open file is named by its path.\<close>

datatype dev_path = VideoDev nat | AudioDev nat

text \<open>
  What probing a candidate path finds: no such path; a path that \<open>open\<close> raises on; a
  node that opens but whose capability query (or the decoding of the name) raises; a
  node that opens and reports a device name.
\<close>

datatype node = Missing | Unopenable | NoCaps | Card string

fun openable :: "node \<Rightarrow> bool" where
  "openable Missing = False"
| "openable Unopenable = False"
| "openable NoCaps = True"
| "openable (Card name) = True"

text \<open>
  The answers of the operating system. \<open>euid\<close> is \<open>os.geteuid()\<close>;
  \<open>configfs_mounted\<close> is the existence of \<open>/sys/kernel/config\<close>;
  \<open>provisioning_ok\<close> says that every directory creation, attribute write and link of
  \<open>_configure_gadget\<close> goes through; \<open>udcs\<close> is the listing of \<open>/sys/class/udc\<close>
  (empty when the directory does not exist); \<open>bind_write_ok\<close> and
  \<open>unbind_write_ok\<close> say that the write to the \<open>UDC\<close> attribute goes through;
  \<open>video_nodes n i\<close> and \<open>audio_nodes n i\<close> are the candidate nodes of number \<open>i\<close>
  at the \<open>n\<close>-th scan; \<open>close_raises\<close> says for which files \<open>close()\<close> raises.
\<close>

record os_env =
  euid :: nat
  configfs_mounted :: bool
  provisioning_ok :: bool
  udcs :: "string list"
  bind_write_ok :: bool
  unbind_write_ok :: bool
  video_nodes :: "nat \<Rightarrow> nat \<Rightarrow> node"
  audio_nodes :: "nat \<Rightarrow> nat \<Rightarrow> node"
  close_raises :: "dev_path \<Rightarrow> bool"

subsection \<open>State of a \<open>USBGadget\<close> object\<close>

text \<open>
  The four fields of \<open>USBGadget\<close> (\<open>gadget_running\<close> is its \<open>running\<close>), and what the
  object has done to the outside: the files it opened, the \<open>close()\<close> calls it made, the
  values written to the \<open>UDC\<close> attribute, and the payloads it handed to the
  \<open>write\<close> method of the two device files, in the order of the calls.
\<close>

record usb_gadget =
  video_device :: "dev_path option"
  audio_device :: "dev_path option"
  gadget_running :: bool
  gadget_configured :: bool
  open_calls :: "dev_path list"
  close_calls :: "dev_path list"
  udc_writes :: "string list"
  video_write_calls :: "bytes list"
  audio_write_calls :: "bytes list"

text \<open>\<open>USBGadget.__init__\<close>\<close>

definition gadget_init :: usb_gadget where
  "gadget_init =
     \<lparr>video_device = None, audio_device = None, gadget_running = False,
      gadget_configured = False, open_calls = [], close_calls = [], udc_writes = [],
      video_write_calls = [], audio_write_calls = []\<rparr>"

subsection \<open>Device discovery\<close>

text \<open>
  The loop over the video candidates in \<open>_open_devices\<close>; the flag is \<open>video_found\<close>.
  A node whose query raises is closed and the field reset (and when that \<open>close()\<close>
  raises too, the outer handler goes on with the field still set); a node that answers
  with a name that does not start with the configured one raises nothing, and the loop
  goes on to the next candidate.
\<close>

fun scan_video ::
  "os_env \<Rightarrow> config \<Rightarrow> (nat \<Rightarrow> node) \<Rightarrow> nat list \<Rightarrow> usb_gadget \<Rightarrow> bool \<times> usb_gadget" where
  "scan_video env cfg nodes [] g = (False, g)"
| "scan_video env cfg nodes (i # rest) g =
     (case nodes i of
        Missing \<Rightarrow> scan_video env cfg nodes rest g
      | Unopenable \<Rightarrow> scan_video env cfg nodes rest g
      | NoCaps \<Rightarrow>
          let g1 = g\<lparr>video_device := Some (VideoDev i),
                     open_calls := open_calls g @ [VideoDev i]\<rparr>;
              g2 = g1\<lparr>close_calls := close_calls g1 @ [VideoDev i]\<rparr>
          in if close_raises env (VideoDev i)
             then scan_video env cfg nodes rest g2
             else scan_video env cfg nodes rest (g2\<lparr>video_device := None\<rparr>)
      | Card name \<Rightarrow>
          let g1 = g\<lparr>video_device := Some (VideoDev i),
                     open_calls := open_calls g @ [VideoDev i]\<rparr>
          in if prefix (UVC_DEVICE_NAME cfg) name
             then (True, g1)
             else scan_video env cfg nodes rest g1)"

text \<open>
  The loop over the audio candidates in \<open>_open_devices\<close>; the flag is \<open>audio_found\<close>.
\<close>

fun scan_audio :: "(nat \<Rightarrow> node) \<Rightarrow> nat list \<Rightarrow> usb_gadget \<Rightarrow> bool \<times> usb_gadget" where
  "scan_audio nodes [] g = (False, g)"
| "scan_audio nodes (i # rest) g =
     (if openable (nodes i)
      then (True, g\<lparr>audio_device := Some (AudioDev i),
                    open_calls := open_calls g @ [AudioDev i]\<rparr>)
      else scan_audio nodes rest g)"

text \<open>The retry loop of \<open>_open_devices\<close> over the retry numbers still to come.\<close>

fun open_devices_retries ::
  "os_env \<Rightarrow> config \<Rightarrow> nat list \<Rightarrow> usb_gadget \<Rightarrow> bool \<times> usb_gadget" where
  "open_devices_retries env cfg [] g = (False, g)"
| "open_devices_retries env cfg (retry # rest) g =
     (let (video_found, g1) = scan_video env cfg (video_nodes env retry) [0..<10] g;
          (audio_found, g2) =
            (if AUDIO_ENABLED cfg then scan_audio (audio_nodes env retry) [0..<10] g1
             else (True, g1))
      in if video_found \<and> audio_found then (True, g2)
         else open_devices_retries env cfg rest g2)"

definition open_devices :: "os_env \<Rightarrow> config \<Rightarrow> usb_gadget \<Rightarrow> bool \<times> usb_gadget" where
  "open_devices env cfg g = open_devices_retries env cfg [0..<10] g"

text \<open>
  The first loop of \<open>_find_existing_gadgets\<close>: the first candidate that exists and
  opens becomes the video device, with no capability query.
\<close>

fun find_video :: "(nat \<Rightarrow> node) \<Rightarrow> nat list \<Rightarrow> usb_gadget \<Rightarrow> usb_gadget" where
  "find_video nodes [] g = g"
| "find_video nodes (i # rest) g =
     (if openable (nodes i)
      then g\<lparr>video_device := Some (VideoDev i),
             open_calls := open_calls g @ [VideoDev i]\<rparr>
      else find_video nodes rest g)"

text \<open>
  \<open>_find_existing_gadgets\<close>. Its second loop is the audio loop of \<open>_open_devices\<close>
  without the flag, and it runs whether or not audio is enabled. The result is whether
  the gadget holds a video device afterwards.
\<close>

definition find_existing_gadgets :: "os_env \<Rightarrow> usb_gadget \<Rightarrow> bool \<times> usb_gadget" where
  "find_existing_gadgets env g =
     (let g1 = find_video (video_nodes env 0) [0..<10] g;
          g2 = snd (scan_audio (audio_nodes env 0) [0..<10] g1)
      in (video_device g2 \<noteq> None, g2))"

subsection \<open>Provisioning and binding\<close>

text \<open>
  \<open>_configure_gadget\<close>: the flag \<open>gadget_configured\<close> is set after the last link, so
  only when every step went through.
\<close>

definition configure_gadget :: "os_env \<Rightarrow> config \<Rightarrow> usb_gadget \<Rightarrow> bool \<times> usb_gadget" where
  "configure_gadget env cfg g =
     (if provisioning_ok env then (True, g\<lparr>gadget_configured := True\<rparr>) else (False, g))"

text \<open>\<open>_enable_gadget\<close>: the first controller of the listing is written to \<open>UDC\<close>.\<close>

definition enable_gadget :: "os_env \<Rightarrow> usb_gadget \<Rightarrow> bool \<times> usb_gadget" where
  "enable_gadget env g =
     (case udcs env of
        [] \<Rightarrow> (False, g)
      | udc # others \<Rightarrow>
          if udc = [] then (False, g)
          else if bind_write_ok env then (True, g\<lparr>udc_writes := udc_writes g @ [udc]\<rparr>)
          else (False, g))"

text \<open>\<open>_disable_gadget\<close>: the empty string is written to \<open>UDC\<close>.\<close>

definition disable_gadget :: "os_env \<Rightarrow> usb_gadget \<Rightarrow> bool \<times> usb_gadget" where
  "disable_gadget env g =
     (if unbind_write_ok env then (True, g\<lparr>udc_writes := udc_writes g @ [[]]\<rparr>)
      else (False, g))"

subsection \<open>\<open>start\<close> and \<open>stop\<close> of the gadget\<close>

text \<open>\<open>USBGadget.start\<close>\<close>

definition gadget_start :: "os_env \<Rightarrow> config \<Rightarrow> usb_gadget \<Rightarrow> bool \<times> usb_gadget" where
  "gadget_start env cfg g =
     (if euid env \<noteq> 0
      then (let (found, g1) = find_existing_gadgets env g
            in (found, g1\<lparr>gadget_running := found\<rparr>))
      else if \<not> configfs_mounted env then (False, g)
      else
        let (ok1, g1) = configure_gadget env cfg g in
        if \<not> ok1 then (False, g1)
        else
          let (ok2, g2) = enable_gadget env g1 in
          if \<not> ok2 then (False, g2)
          else
            let (ok3, g3) = open_devices env cfg g2 in
            if \<not> ok3 then (False, g3)
            else (True, g3\<lparr>gadget_running := True\<rparr>))"

text \<open>
  The \<open>try\<close> block of \<open>USBGadget.stop\<close>, statement by statement. \<open>Inl\<close> is an
  exception, with the state the gadget was in when it was raised.
\<close>

datatype exn = CloseError

definition close_file :: "os_env \<Rightarrow> dev_path \<Rightarrow> usb_gadget \<Rightarrow> (exn \<times> usb_gadget) + usb_gadget" where
  "close_file env h g =
     (let g' = g\<lparr>close_calls := close_calls g @ [h]\<rparr>
      in if close_raises env h then Inl (CloseError, g') else Inr g')"

definition stop_close_video :: "os_env \<Rightarrow> usb_gadget \<Rightarrow> (exn \<times> usb_gadget) + usb_gadget" where
  "stop_close_video env g =
     (case video_device g of
        None \<Rightarrow> Inr g
      | Some h \<Rightarrow>
          (case close_file env h g of
             Inl e \<Rightarrow> Inl e
           | Inr g' \<Rightarrow> Inr (g'\<lparr>video_device := None\<rparr>)))"

definition stop_close_audio :: "os_env \<Rightarrow> usb_gadget \<Rightarrow> (exn \<times> usb_gadget) + usb_gadget" where
  "stop_close_audio env g =
     (case audio_device g of
        None \<Rightarrow> Inr g
      | Some h \<Rightarrow>
          (case close_file env h g of
             Inl e \<Rightarrow> Inl e
           | Inr g' \<Rightarrow> Inr (g'\<lparr>audio_device := None\<rparr>)))"

definition stop_body :: "os_env \<Rightarrow> usb_gadget \<Rightarrow> (exn \<times> usb_gadget) + usb_gadget" where
  "stop_body env g =
     (case stop_close_video env g of
        Inl e \<Rightarrow> Inl e
      | Inr g1 \<Rightarrow>
          (case stop_close_audio env g1 of
             Inl e \<Rightarrow> Inl e
           | Inr g2 \<Rightarrow>
               let g3 = (if gadget_configured g2 \<and> euid env = 0
                         then snd (disable_gadget env g2) else g2)
               in Inr (g3\<lparr>gadget_running := False\<rparr>)))"

text \<open>\<open>USBGadget.stop\<close>: the handler turns an exception of the body into False.\<close>

definition gadget_stop :: "os_env \<Rightarrow> usb_gadget \<Rightarrow> bool \<times> usb_gadget" where
  "gadget_stop env g =
     (case stop_body env g of
        Inl (e, g') \<Rightarrow> (False, g')
      | Inr g' \<Rightarrow> (True, g'))"

subsection \<open>Writing to the devices\<close>


definition write_audio_sample ::
  "config \<Rightarrow> bool \<Rightarrow> bytes \<Rightarrow> usb_gadget \<Rightarrow> bool \<times> usb_gadget" where
  "write_audio_sample cfg io_ok audio_data g =
     (if \<not> gadget_running g \<or> audio_device g = None \<or> \<not> AUDIO_ENABLED cfg then (False, g)
      else
        let g' = g\<lparr>audio_write_calls := audio_write_calls g @ [audio_data]\<rparr>
        in if io_ok then (True, g') else (False, g'))"

section \<open>The processing tasks (src/modules/media\_pipeline.py)\<close>









section \<open>Concrete situations\<close>


text \<open>
  Candidate video nodes: two cameras of the machine that answer the capability query
  with their own names and, as the third candidate, the gadget's node; and one camera
  of the machine alone.
\<close>

definition third_matches :: "nat \<Rightarrow> node" where
  "third_matches i =
     (if i = 0 then Card ''Integrated Camera''
      else if i = 1 then Card ''USB Capture''
      else if i = 2 then Card ''WebRTCam Video''
      else Missing)"

definition one_foreign_camera :: "nat \<Rightarrow> node" where
  "one_foreign_camera i = (if i = 0 then Card ''Integrated Camera'' else Missing)"

text \<open>Candidate nodes of which only the first exists, and none at all.\<close>

definition first_only :: "nat \<Rightarrow> node" where
  "first_only i = (if i = 0 then NoCaps else Missing)"

definition no_nodes :: "nat \<Rightarrow> node" where
  "no_nodes i = Missing"

text \<open>
  A machine on which everything but discovery goes well, with the given video nodes at
  every scan, for the given effective user id.
\<close>

definition machine :: "nat \<Rightarrow> (nat \<Rightarrow> node) \<Rightarrow> (nat \<Rightarrow> node) \<Rightarrow> os_env" where
  "machine uid vnodes anodes =
     \<lparr>euid = uid, configfs_mounted = True, provisioning_ok = True,
      udcs = [''fe980000.usb''], bind_write_ok = True, unbind_write_ok = True,
      video_nodes = (\<lambda>retry. vnodes), audio_nodes = (\<lambda>retry. anodes),
      close_raises = (\<lambda>h. False)\<rparr>"

text \<open>The same machine when closing the video device raises.\<close>

definition video_close_fails :: os_env where
  "video_close_fails =
     (machine 0 first_only first_only)\<lparr>close_raises := (\<lambda>h. h = VideoDev 0)\<rparr>"

text \<open>The same machine when closing the audio device raises.\<close>

definition audio_close_fails :: os_env where
  "audio_close_fails =
     (machine 0 first_only first_only)\<lparr>close_raises := (\<lambda>h. h = AudioDev 0)\<rparr>"

text \<open>A provisioned gadget that runs with both devices open.\<close>

definition running_gadget :: usb_gadget where
  "running_gadget =
     gadget_init\<lparr>video_device := Some (VideoDev 0), audio_device := Some (AudioDev 0),
                 gadget_running := True, gadget_configured := True,
                 open_calls := [VideoDev 0, AudioDev 0],
                 udc_writes := [''fe980000.usb'']\<rparr>"

text \<open>The default configuration with audio switched off.\<close>

definition video_only_config :: config where
  "video_only_config = default_config\<lparr>AUDIO_ENABLED := False\<rparr>"





definition heard_pipeline :: "(nat, nat) media_pipeline" where
  "heard_pipeline =
     queue_run default_config [AudioArrival 100 7]
       (add_audio_track default_config 3 (init default_config))"

section \<open>Properties of the bounded queues\<close>

lemma queue_step_bounded:
  "queues_bounded cfg s \<Longrightarrow> queues_bounded cfg (queue_step cfg e s)"
  by (cases e)
     (auto simp: queues_bounded_def video_on_frame_def audio_on_frame_def
        video_popleft_def audio_popleft_def deque_append_def video_maxlen_def Let_def)

lemma queue_states_bounded:
  "queues_bounded cfg s \<Longrightarrow> \<forall>s' \<in> set (queue_states cfg es s). queues_bounded cfg s'"
proof (induction es arbitrary: s)
  case Nil
  then show ?case by simp
next
  case (Cons e es)
  have "queues_bounded cfg (queue_step cfg e s)"
    using Cons.prems by (rule queue_step_bounded)
  then have "\<forall>s' \<in> set (queue_states cfg es (queue_step cfg e s)). queues_bounded cfg s'"
    by (rule Cons.IH)
  with Cons.prems show ?case by simp
qed

lemma frames_dropped_step:
  "frames_dropped (queue_step cfg e s) =
     frames_dropped s + video_rejected cfg [e] s"
  by (cases e)
     (auto simp: video_on_frame_def audio_on_frame_def video_popleft_def
        audio_popleft_def video_maxlen_def Let_def)

lemma samples_dropped_step:
  "samples_dropped (queue_step cfg e s) =
     samples_dropped s + audio_rejected cfg [e] s"
  by (cases e)
     (auto simp: video_on_frame_def audio_on_frame_def video_popleft_def
        audio_popleft_def Let_def)

lemma frames_dropped_run:
  "frames_dropped (queue_run cfg es s) = frames_dropped s + video_rejected cfg es s"
proof (induction es arbitrary: s)
  case Nil
  show ?case by simp
next
  case (Cons e es)
  have "frames_dropped (queue_run cfg (e # es) s) =
          frames_dropped (queue_step cfg e s) + video_rejected cfg es (queue_step cfg e s)"
    using Cons.IH by simp
  also have "\<dots> = frames_dropped s + video_rejected cfg [e] s
                   + video_rejected cfg es (queue_step cfg e s)"
    by (simp only: frames_dropped_step)
  finally show ?case by simp
qed

lemma samples_dropped_run:
  "samples_dropped (queue_run cfg es s) = samples_dropped s + audio_rejected cfg es s"
proof (induction es arbitrary: s)
  case Nil
  show ?case by simp
next
  case (Cons e es)
  have "samples_dropped (queue_run cfg (e # es) s) =
          samples_dropped (queue_step cfg e s) + audio_rejected cfg es (queue_step cfg e s)"
    using Cons.IH by simp
  also have "\<dots> = samples_dropped s + audio_rejected cfg [e] s
                   + audio_rejected cfg es (queue_step cfg e s)"
    by (simp only: samples_dropped_step)
  finally show ?case by simp
qed

text \<open>
  Claim C1. Along every sequence of arrivals (with the processing tasks taking samples
  in between), both ingestion queues stay within their capacities; an arrival that finds
  its queue at capacity returns at once with the queue as it was and the dropped counter
  one higher; and the dropped counters have grown by exactly the number of such
  arrivals.
\<close>

theorem C1_queue_bounded_drops_counted:
  assumes "queues_bounded cfg s"
  shows "(\<forall>s' \<in> set (queue_states cfg es s). queues_bounded cfg s')
     \<and> frames_dropped (queue_run cfg es s) = frames_dropped s + video_rejected cfg es s
     \<and> samples_dropped (queue_run cfg es s) = samples_dropped s + audio_rejected cfg es s
     \<and> (\<forall>s' now f. video_maxlen cfg \<le> length (video_frame_queue s') \<longrightarrow>
            video_on_frame cfg now f s' = s'\<lparr>frames_dropped := frames_dropped s' + 1\<rparr>)
     \<and> (\<forall>s' now f. audio_maxlen cfg \<le> length (audio_sample_queue s') \<longrightarrow>
            audio_on_frame cfg now f s' = s'\<lparr>samples_dropped := samples_dropped s' + 1\<rparr>)"
proof -
  have a: "\<forall>s' \<in> set (queue_states cfg es s). queues_bounded cfg s'"
    using assms by (rule queue_states_bounded)
  have b: "\<forall>s' now f. video_maxlen cfg \<le> length (video_frame_queue s') \<longrightarrow>
            video_on_frame cfg now f s' = s'\<lparr>frames_dropped := frames_dropped s' + 1\<rparr>"
    by (simp add: video_on_frame_def video_maxlen_def)
  have c: "\<forall>s' now f. audio_maxlen cfg \<le> length (audio_sample_queue s') \<longrightarrow>
            audio_on_frame cfg now f s' = s'\<lparr>samples_dropped := samples_dropped s' + 1\<rparr>"
    by (simp add: audio_on_frame_def)
  show ?thesis
    using a b c frames_dropped_run [of cfg es s] samples_dropped_run [of cfg es s]
    by blast
qed

theorem C1_witness:
  "queues_bounded default_config (init default_config :: (nat, nat) media_pipeline)
   \<and> video_frame_queue (queue_run default_config
        [VideoArrival 10 1, VideoArrival 11 2, VideoArrival 12 3,
          VideoArrival 13 4, VideoArrival 14 5, VideoArrival 15 (6::nat)] (init default_config :: (nat, nat) media_pipeline)) = [1,2,3,4,5]
   \<and> frames_dropped (queue_run default_config
        [VideoArrival 10 1, VideoArrival 11 2, VideoArrival 12 3,
          VideoArrival 13 4, VideoArrival 14 5, VideoArrival 15 (6::nat)] (init default_config :: (nat, nat) media_pipeline)) = 1"
proof -
  let ?s0 = "init default_config :: (nat, nat) media_pipeline"
  let ?es = "[VideoArrival 10 1, VideoArrival 11 2, VideoArrival 12 3,
          VideoArrival 13 4, VideoArrival 14 5, VideoArrival 15 (6::nat)]"
  have h: "queues_bounded default_config ?s0"
    by (simp add: queues_bounded_def init_def)
  have r: "video_rejected default_config ?es ?s0 = 1"
    by (simp add: init_def default_config_def video_on_frame_def deque_append_def video_maxlen_def Let_def)
  have q: "video_frame_queue (queue_run default_config ?es ?s0) = [1,2,3,4,5]"
    by (simp add: init_def default_config_def video_on_frame_def deque_append_def video_maxlen_def Let_def)
  have z: "frames_dropped ?s0 = 0"
    by (simp add: init_def)
  have d: "frames_dropped (queue_run default_config ?es ?s0) =
             frames_dropped ?s0 + video_rejected default_config ?es ?s0"
    using C1_queue_bounded_drops_counted [OF h, of ?es] by blast
  have "frames_dropped (queue_run default_config ?es ?s0) = 1"
    unfolding d r z by simp
  with h q show ?thesis by blast
qed

section \<open>The smoothed rate\<close>

lemma instant_rate_nonneg: "0 \<le> instant_rate d"
  by (simp add: instant_rate_def)

lemma rate_step_accepted:
  assumes "\<not> video_maxlen cfg \<le> length (video_frame_queue s)"
  shows "last_frame_time (queue_step cfg (VideoArrival now f) s) = now"
    and "0 < last_frame_time s \<Longrightarrow> current_fps s \<noteq> 0 \<Longrightarrow>
           current_fps (queue_step cfg (VideoArrival now f) s) =
             0.1 * instant_rate (now - last_frame_time s) + 0.9 * current_fps s"
    and "last_frame_time s = 0 \<Longrightarrow> current_fps s = 0 \<Longrightarrow>
           current_fps (queue_step cfg (VideoArrival now f) s) = instant_rate 1"
    and "video_enqueue_times cfg (VideoArrival now f # es) s =
           now # video_enqueue_times cfg es (queue_step cfg (VideoArrival now f) s)"
  using assms
  by (auto simp: video_on_frame_def video_maxlen_def instant_rate_def Let_def)

lemma rate_step_other:
  assumes "\<forall>now f. e = VideoArrival now f \<longrightarrow> video_maxlen cfg \<le> length (video_frame_queue s)"
  shows "last_frame_time (queue_step cfg e s) = last_frame_time s"
    and "current_fps (queue_step cfg e s) = current_fps s"
    and "video_enqueue_times cfg (e # es) s = video_enqueue_times cfg es (queue_step cfg e s)"
  using assms
  by (cases e;
      auto simp: video_on_frame_def audio_on_frame_def video_popleft_def
        audio_popleft_def video_maxlen_def Let_def)+

lemma rate_run_steady:
  assumes "0 < last_frame_time s" and "0 < current_fps s"
    and "\<forall>t \<in> set (video_enqueue_times cfg es s). 0 < t"
  shows "current_fps (queue_run cfg es s) =
           ema_from (current_fps s)
             (deltas_after (last_frame_time s) (video_enqueue_times cfg es s))"
  using assms
proof (induction es arbitrary: s)
  case Nil
  show ?case by simp
next
  case (Cons e es)
  let ?s' = "queue_step cfg e s"
  show ?case
  proof (cases "\<forall>now f. e = VideoArrival now f \<longrightarrow> video_maxlen cfg \<le> length (video_frame_queue s)")
    case True
    note same = rate_step_other [OF True]
    have "current_fps (queue_run cfg es ?s') =
            ema_from (current_fps ?s')
              (deltas_after (last_frame_time ?s') (video_enqueue_times cfg es ?s'))"
      using Cons.prems by (intro Cons.IH) (simp_all only: same)
    then show ?thesis by (simp only: same queue_run.simps)
  next
    case False
    then obtain now f where e: "e = VideoArrival now f"
      and room: "\<not> video_maxlen cfg \<le> length (video_frame_queue s)"
      by blast
    note acc = rate_step_accepted [OF room, of now f]
    have times: "video_enqueue_times cfg (e # es) s = now # video_enqueue_times cfg es ?s'"
      unfolding e by (rule acc(4))
    have "\<forall>t \<in> set (now # video_enqueue_times cfg es ?s'). 0 < t"
      using Cons.prems(3) unfolding times .
    then have now_pos: "0 < now"
      and rest_pos: "\<forall>t \<in> set (video_enqueue_times cfg es ?s'). 0 < t"
      by simp_all
    have fps': "current_fps ?s' =
                  0.1 * instant_rate (now - last_frame_time s) + 0.9 * current_fps s"
      unfolding e using Cons.prems(1,2) by (intro acc(2)) simp_all
    have last': "last_frame_time ?s' = now"
      unfolding e by (rule acc(1))
    have pos': "0 < current_fps ?s'"
      using fps' Cons.prems(2) instant_rate_nonneg [of "now - last_frame_time s"] by simp
    have "current_fps (queue_run cfg es ?s') =
            ema_from (current_fps ?s')
              (deltas_after (last_frame_time ?s') (video_enqueue_times cfg es ?s'))"
      using rest_pos now_pos pos' last' by (intro Cons.IH) simp_all
    then show ?thesis
      unfolding times by (simp add: last' fps')
  qed
qed

lemma rate_run_initial:
  assumes "last_frame_time s = 0" and "current_fps s = 0"
    and "\<forall>t \<in> set (video_enqueue_times cfg es s). 0 < t"
  shows "current_fps (queue_run cfg es s) =
           spec_smoothed_rate (inter_arrival_deltas (video_enqueue_times cfg es s))"
  using assms
proof (induction es arbitrary: s)
  case Nil
  then show ?case by (simp add: spec_smoothed_rate_def inter_arrival_deltas_def)
next
  case (Cons e es)
  let ?s' = "queue_step cfg e s"
  show ?case
  proof (cases "\<forall>now f. e = VideoArrival now f \<longrightarrow> video_maxlen cfg \<le> length (video_frame_queue s)")
    case True
    note same = rate_step_other [OF True]
    have "current_fps (queue_run cfg es ?s') =
            spec_smoothed_rate (inter_arrival_deltas (video_enqueue_times cfg es ?s'))"
      using Cons.prems by (intro Cons.IH) (simp_all only: same)
    then show ?thesis by (simp only: same queue_run.simps)
  next
    case False
    then obtain now f where e: "e = VideoArrival now f"
      and room: "\<not> video_maxlen cfg \<le> length (video_frame_queue s)"
      by blast
    note acc = rate_step_accepted [OF room, of now f]
    have times: "video_enqueue_times cfg (e # es) s = now # video_enqueue_times cfg es ?s'"
      unfolding e by (rule acc(4))
    have "\<forall>t \<in> set (now # video_enqueue_times cfg es ?s'). 0 < t"
      using Cons.prems(3) unfolding times .
    then have now_pos: "0 < now"
      and rest_pos: "\<forall>t \<in> set (video_enqueue_times cfg es ?s'). 0 < t"
      by simp_all
    have fps': "current_fps ?s' = instant_rate 1"
      unfolding e using Cons.prems(1,2) by (intro acc(3))
    have last': "last_frame_time ?s' = now"
      unfolding e by (rule acc(1))
    have pos': "0 < current_fps ?s'"
      using fps' by (simp add: instant_rate_def)
    have "current_fps (queue_run cfg es ?s') =
            ema_from (current_fps ?s')
              (deltas_after (last_frame_time ?s') (video_enqueue_times cfg es ?s'))"
      using rest_pos now_pos pos' last' by (intro rate_run_steady) simp_all
    then show ?thesis
      unfolding times
      by (simp add: last' fps' spec_smoothed_rate_def inter_arrival_deltas_def)
  qed
qed

text \<open>
  Claim C2. After any run from a new pipeline in which the enqueued video frames arrive
  at positive clock values (seconds since the epoch), the smoothed rate of the stats is
  the exponential moving average of the specification over the inter-arrival deltas of
  the enqueued frames, the first delta forced to 1 and the average seeded with the first
  instantaneous rate. The status shows this value rounded to one decimal.
\<close>

theorem C2_smoothed_rate_is_ema:
  assumes "\<forall>t \<in> set (video_enqueue_times cfg es (init cfg :: ('f, 't) media_pipeline)). 0 < t"
  shows "current_fps (queue_run cfg es (init cfg :: ('f, 't) media_pipeline)) =
           spec_smoothed_rate
             (inter_arrival_deltas (video_enqueue_times cfg es (init cfg :: ('f, 't) media_pipeline)))"
  using assms by (intro rate_run_initial) (simp_all add: init_def)


theorem C2_witness:
  "video_enqueue_times default_config
        [VideoArrival 100 (1::nat), VideoArrival (201 / 2) 2, VideoArrival 101 3,
         VideoArrival 101 4]
        (init default_config :: (nat, nat) media_pipeline) = [100, 201 / 2, 101, 101]
   \<and> current_fps (queue_run default_config
        [VideoArrival 100 (1::nat), VideoArrival (201 / 2) 2, VideoArrival 101 3,
         VideoArrival 101 4]
        (init default_config :: (nat, nat) media_pipeline)) = 1071 / 1000"
proof -
  let ?s0 = "init default_config :: (nat, nat) media_pipeline"
  let ?es = "[VideoArrival 100 (1::nat), VideoArrival (201 / 2) 2, VideoArrival 101 3,
              VideoArrival 101 4]"
  have t: "video_enqueue_times default_config ?es ?s0 = [100, 201 / 2, 101, 101]"
    by (simp add: init_def default_config_def video_on_frame_def deque_append_def
          video_maxlen_def Let_def)
  have h: "\<forall>t \<in> set (video_enqueue_times default_config ?es ?s0). 0 < t"
    unfolding t by simp
  have "current_fps (queue_run default_config ?es ?s0) =
          spec_smoothed_rate (inter_arrival_deltas (video_enqueue_times default_config ?es ?s0))"
    using h by (rule C2_smoothed_rate_is_ema)
  also have "\<dots> = 1071 / 1000"
    unfolding t
    by (simp add: spec_smoothed_rate_def inter_arrival_deltas_def instant_rate_def)
  finally show ?thesis using t by blast
qed

section \<open>Device discovery\<close>

lemma upt10: "[0..<10] = [0, 1, 2, 3, 4, 5, 6, 7, 8, 9::nat]"
  by (simp add: upt_rec)

lemma scan_video_found:
  "scan_video env cfg nodes cands g = (True, g') \<Longrightarrow>
     \<exists>i \<in> set cands. \<exists>name. nodes i = Card name \<and> prefix (UVC_DEVICE_NAME cfg) name
        \<and> video_device g' = Some (VideoDev i)"
proof (induction cands arbitrary: g)
  case Nil
  then show ?case by simp
next
  case (Cons i rest)
  show ?case
  proof (cases "nodes i")
    case Missing
    with Cons show ?thesis by auto
  next
    case Unopenable
    with Cons show ?thesis by auto
  next
    case NoCaps
    with Cons show ?thesis by (auto simp: Let_def split: if_splits)
  next
    case (Card name)
    with Cons show ?thesis by (auto simp: Let_def split: if_splits)
  qed
qed

text \<open>
  Claim C3, where the code departs from it. The loop closes a candidate only when the
  capability query raises. With two cameras of the machine that answer the query under
  their own names before the gadget's node, discovery ends on the third candidate, as
  the claim says, but has made no \<open>close()\<close> call for the first two. With one such
  camera and no gadget node, discovery fails after its retries and leaves the foreign
  camera open as the gadget's video device.
\<close>

theorem C3_foreign_cameras_left_open:
  "open_devices (machine 0 third_matches first_only) default_config gadget_init =
     (True,
      gadget_init\<lparr>video_device := Some (VideoDev 2), audio_device := Some (AudioDev 0),
                  open_calls := [VideoDev 0, VideoDev 1, VideoDev 2, AudioDev 0],
                  close_calls := []\<rparr>)
   \<and> fst (open_devices (machine 0 one_foreign_camera first_only) default_config gadget_init)
       = False
   \<and> video_device
        (snd (open_devices (machine 0 one_foreign_camera first_only) default_config gadget_init))
       = Some (VideoDev 0)
   \<and> close_calls
        (snd (open_devices (machine 0 one_foreign_camera first_only) default_config gadget_init))
       = []"
  by (simp add: open_devices_def upt10 machine_def third_matches_def one_foreign_camera_def
        first_only_def default_config_def gadget_init_def Let_def)

section \<open>Starting and stopping the pipeline\<close>









lemma setup_video_codecs_stats:
  "frames_received (snd (setup_video_codecs avail cfg s)) = frames_received s"
  "frames_dropped (snd (setup_video_codecs avail cfg s)) = frames_dropped s"
  "samples_received (snd (setup_video_codecs avail cfg s)) = samples_received s"
  "samples_dropped (snd (setup_video_codecs avail cfg s)) = samples_dropped s"
  "current_fps (snd (setup_video_codecs avail cfg s)) = current_fps s"
  by (simp_all add: setup_video_codecs_def Let_def split: option.splits)

lemma setup_audio_codecs_stats:
  "frames_received (snd (setup_audio_codecs avail cfg s)) = frames_received s"
  "frames_dropped (snd (setup_audio_codecs avail cfg s)) = frames_dropped s"
  "samples_received (snd (setup_audio_codecs avail cfg s)) = samples_received s"
  "samples_dropped (snd (setup_audio_codecs avail cfg s)) = samples_dropped s"
  "current_fps (snd (setup_audio_codecs avail cfg s)) = current_fps s"
  by (simp_all add: setup_audio_codecs_def Let_def split: option.splits)

lemma start_keeps_stats:
  "frames_received (snd (start avail cfg s)) = frames_received s"
  "frames_dropped (snd (start avail cfg s)) = frames_dropped s"
  "samples_received (snd (start avail cfg s)) = samples_received s"
  "samples_dropped (snd (start avail cfg s)) = samples_dropped s"
  "current_fps (snd (start avail cfg s)) = current_fps s"
proof -
  obtain ok1 s1 where v: "setup_video_codecs avail cfg s = (ok1, s1)"
    by (cases "setup_video_codecs avail cfg s")
  obtain ok2 s2 where a: "setup_audio_codecs avail cfg s1 = (ok2, s2)"
    by (cases "setup_audio_codecs avail cfg s1")
  note v' = setup_video_codecs_stats [of avail cfg s, unfolded v snd_conv]
  note a' = setup_audio_codecs_stats [of avail cfg s1, unfolded a snd_conv]
  show "frames_received (snd (start avail cfg s)) = frames_received s"
    using v a v'(1) a'(1) by (simp add: start_def create_task_def Let_def)
  show "frames_dropped (snd (start avail cfg s)) = frames_dropped s"
    using v a v'(2) a'(2) by (simp add: start_def create_task_def Let_def)
  show "samples_received (snd (start avail cfg s)) = samples_received s"
    using v a v'(3) a'(3) by (simp add: start_def create_task_def Let_def)
  show "samples_dropped (snd (start avail cfg s)) = samples_dropped s"
    using v a v'(4) a'(4) by (simp add: start_def create_task_def Let_def)
  show "current_fps (snd (start avail cfg s)) = current_fps s"
    using v a v'(5) a'(5) by (simp add: start_def create_task_def Let_def)
qed

lemma stop_effect:
  "video_frame_queue (snd (stop s)) = []"
  "audio_sample_queue (snd (stop s)) = []"
  "video_track (snd (stop s)) = None"
  "audio_track (snd (stop s)) = None"
  "frames_received (snd (stop s)) = frames_received s"
  "frames_dropped (snd (stop s)) = frames_dropped s"
  "samples_received (snd (stop s)) = samples_received s"
  "samples_dropped (snd (stop s)) = samples_dropped s"
  "current_fps (snd (stop s)) = current_fps s"
  by (simp_all add: stop_def cancel_task_def Let_def split: option.splits)

text \<open>
  Claim C5. After \<open>stop\<close> both queues are empty and both track registrations cleared;
  the received and dropped counters and the smoothed rate are those from before the
  call, and they still are after a further \<open>start\<close> and \<open>stop\<close>.
\<close>

theorem C5_stop_clears_queues_keeps_stats:
  "length (video_frame_queue (snd (stop s))) = 0
   \<and> length (audio_sample_queue (snd (stop s))) = 0
   \<and> video_track (snd (stop s)) = None \<and> audio_track (snd (stop s)) = None
   \<and> frames_received (snd (stop s)) = frames_received s
   \<and> frames_dropped (snd (stop s)) = frames_dropped s
   \<and> samples_received (snd (stop s)) = samples_received s
   \<and> samples_dropped (snd (stop s)) = samples_dropped s
   \<and> current_fps (snd (stop s)) = current_fps s
   \<and> frames_received (snd (stop (snd (start avail cfg (snd (stop s)))))) = frames_received s
   \<and> frames_dropped (snd (stop (snd (start avail cfg (snd (stop s)))))) = frames_dropped s
   \<and> samples_received (snd (stop (snd (start avail cfg (snd (stop s)))))) = samples_received s
   \<and> samples_dropped (snd (stop (snd (start avail cfg (snd (stop s)))))) = samples_dropped s
   \<and> current_fps (snd (stop (snd (start avail cfg (snd (stop s)))))) = current_fps s"
  by (simp only: stop_effect start_keeps_stats list.size)

section \<open>Starting and stopping the gadget\<close>

lemma find_video_device:
  "video_device (find_video nodes cands g) \<noteq> None \<longleftrightarrow>
     video_device g \<noteq> None \<or> (\<exists>i \<in> set cands. openable (nodes i))"
  by (induction cands) auto

lemma find_video_opened:
  "video_device g = None \<Longrightarrow> video_device (find_video nodes cands g) = Some h \<Longrightarrow>
     \<exists>i \<in> set cands. h = VideoDev i \<and> openable (nodes i)"
  by (induction cands) (auto split: if_splits)

lemma find_video_frame:
  "gadget_configured (find_video nodes cands g) = gadget_configured g"
  "udc_writes (find_video nodes cands g) = udc_writes g"
  "close_calls (find_video nodes cands g) = close_calls g"
  by (induction cands) auto

lemma scan_audio_frame:
  "video_device (snd (scan_audio nodes cands g)) = video_device g"
  "gadget_configured (snd (scan_audio nodes cands g)) = gadget_configured g"
  "udc_writes (snd (scan_audio nodes cands g)) = udc_writes g"
  "close_calls (snd (scan_audio nodes cands g)) = close_calls g"
  by (induction cands) auto

text \<open>
  Claim C6. Without root privilege, \<open>start\<close> on a gadget that holds no video device
  succeeds exactly when one of the ten candidate video nodes exists and opens; the
  gadget then runs with that node as its video device, and otherwise holds none. The
  audio nodes have no influence on the result, and nothing is provisioned or bound.
\<close>

theorem C6_unprivileged_start:
  assumes "euid env \<noteq> 0" and "video_device g = None"
  shows "fst (gadget_start env cfg g) = (\<exists>i<10. openable (video_nodes env 0 i))
     \<and> gadget_running (snd (gadget_start env cfg g)) = fst (gadget_start env cfg g)
     \<and> (fst (gadget_start env cfg g) \<longrightarrow>
          (\<exists>i<10. video_device (snd (gadget_start env cfg g)) = Some (VideoDev i)
                  \<and> openable (video_nodes env 0 i)))
     \<and> (\<not> fst (gadget_start env cfg g) \<longrightarrow>
          video_device (snd (gadget_start env cfg g)) = None)
     \<and> fst (gadget_start (env\<lparr>audio_nodes := anodes\<rparr>) cfg g) = fst (gadget_start env cfg g)
     \<and> gadget_configured (snd (gadget_start env cfg g)) = gadget_configured g
     \<and> udc_writes (snd (gadget_start env cfg g)) = udc_writes g"
proof -
  let ?g1 = "find_video (video_nodes env 0) [0..<10] g"
  let ?g2 = "snd (scan_audio (audio_nodes env 0) [0..<10] ?g1)"
  have st: "gadget_start env cfg g = (video_device ?g2 \<noteq> None, ?g2\<lparr>gadget_running := video_device ?g2 \<noteq> None\<rparr>)"
    using assms(1) by (simp add: gadget_start_def find_existing_gadgets_def Let_def)
  have st': "fst (gadget_start (env\<lparr>audio_nodes := anodes\<rparr>) cfg g) =
               (video_device (snd (scan_audio (anodes 0) [0..<10] ?g1)) \<noteq> None)"
    using assms(1) by (simp add: gadget_start_def find_existing_gadgets_def Let_def)
  have v2: "video_device ?g2 = video_device ?g1"
    by (rule scan_audio_frame(1))
  have found: "video_device ?g1 \<noteq> None \<longleftrightarrow> (\<exists>i<10. openable (video_nodes env 0 i))"
    using find_video_device [of "video_nodes env 0" "[0..<10]" g] assms(2) by auto
  have which: "video_device ?g1 \<noteq> None \<longrightarrow>
                 (\<exists>i<10. video_device ?g1 = Some (VideoDev i) \<and> openable (video_nodes env 0 i))"
    using find_video_opened [OF assms(2), of "video_nodes env 0" "[0..<10]"] by auto
  have a: "fst (gadget_start env cfg g) = (\<exists>i<10. openable (video_nodes env 0 i))"
    unfolding st using v2 found by simp
  have b: "gadget_running (snd (gadget_start env cfg g)) = fst (gadget_start env cfg g)"
    unfolding st by simp
  have c: "fst (gadget_start env cfg g) \<longrightarrow>
          (\<exists>i<10. video_device (snd (gadget_start env cfg g)) = Some (VideoDev i)
                  \<and> openable (video_nodes env 0 i))"
    unfolding st using v2 which by simp
  have d: "\<not> fst (gadget_start env cfg g) \<longrightarrow>
          video_device (snd (gadget_start env cfg g)) = None"
    unfolding st by simp
  have e: "fst (gadget_start (env\<lparr>audio_nodes := anodes\<rparr>) cfg g) = fst (gadget_start env cfg g)"
    unfolding st' st using v2 by (simp add: scan_audio_frame(1))
  have f: "gadget_configured (snd (gadget_start env cfg g)) = gadget_configured g"
    unfolding st by (simp add: scan_audio_frame find_video_frame)
  have h: "udc_writes (snd (gadget_start env cfg g)) = udc_writes g"
    unfolding st by (simp add: scan_audio_frame find_video_frame)
  from a b c d e f h show ?thesis by blast
qed

theorem C6_witness:
  "euid (machine 1000 first_only no_nodes) \<noteq> 0 \<and> video_device gadget_init = None
   \<and> fst (gadget_start (machine 1000 first_only no_nodes) default_config gadget_init)
   \<and> gadget_running (snd (gadget_start (machine 1000 first_only no_nodes) default_config gadget_init))
   \<and> \<not> fst (gadget_start (machine 1000 no_nodes first_only) default_config gadget_init)"
proof -
  have u: "euid (machine 1000 first_only no_nodes) \<noteq> 0" "euid (machine 1000 no_nodes first_only) \<noteq> 0"
    by (simp_all add: machine_def)
  have n: "video_device gadget_init = None"
    by (simp add: gadget_init_def)
  have yes: "\<exists>i<10. openable (video_nodes (machine 1000 first_only no_nodes) 0 i)"
    by (rule exI [of _ 0]) (simp add: machine_def first_only_def)
  have no: "\<not> (\<exists>i<10. openable (video_nodes (machine 1000 no_nodes first_only) 0 i))"
    by (simp add: machine_def no_nodes_def)
  from C6_unprivileged_start [OF u(1) n, of default_config] yes
  have 1: "fst (gadget_start (machine 1000 first_only no_nodes) default_config gadget_init)
           \<and> gadget_running (snd (gadget_start (machine 1000 first_only no_nodes) default_config gadget_init))"
    by blast
  from C6_unprivileged_start [OF u(2) n, of default_config] no
  have 2: "\<not> fst (gadget_start (machine 1000 no_nodes first_only) default_config gadget_init)"
    by blast
  from u n 1 2 show ?thesis by blast
qed

text \<open>
  When closing the video device raises, \<open>stop\<close> returns False with the audio device
  still open and no \<open>close()\<close> call made for it.
\<close>

theorem C7_counterexample:
  "gadget_stop video_close_fails running_gadget =
     (False, running_gadget\<lparr>close_calls := [VideoDev 0]\<rparr>)
   \<and> audio_device (snd (gadget_stop video_close_fails running_gadget)) = Some (AudioDev 0)
   \<and> AudioDev 0 \<notin> set (close_calls (snd (gadget_stop video_close_fails running_gadget)))"
  by (simp add: gadget_stop_def stop_body_def stop_close_video_def stop_close_audio_def
        close_file_def video_close_fails_def running_gadget_def gadget_init_def machine_def
        Let_def)

lemma stop_close_video_cases:
  "stop_close_video env g =
     (case video_device g of
        None \<Rightarrow> Inr g
      | Some h \<Rightarrow>
          if close_raises env h then Inl (CloseError, g\<lparr>close_calls := close_calls g @ [h]\<rparr>)
          else Inr (g\<lparr>close_calls := close_calls g @ [h], video_device := None\<rparr>))"
  by (simp add: stop_close_video_def close_file_def Let_def split: option.splits)

lemma stop_close_audio_cases:
  "stop_close_audio env g =
     (case audio_device g of
        None \<Rightarrow> Inr g
      | Some h \<Rightarrow>
          if close_raises env h then Inl (CloseError, g\<lparr>close_calls := close_calls g @ [h]\<rparr>)
          else Inr (g\<lparr>close_calls := close_calls g @ [h], audio_device := None\<rparr>))"
  by (simp add: stop_close_audio_def close_file_def Let_def split: option.splits)

lemma gadget_stop_unbind_only_if:
  "udc_writes (snd (gadget_stop env g)) \<noteq> udc_writes g \<Longrightarrow>
     gadget_configured g \<and> euid env = 0 \<and> fst (gadget_stop env g)
     \<and> udc_writes (snd (gadget_stop env g)) = udc_writes g @ [[]]"
  by (auto simp: gadget_stop_def stop_body_def stop_close_video_cases stop_close_audio_cases
        disable_gadget_def Let_def split: option.splits if_splits)

lemma gadget_stop_clean:
  assumes "\<forall>h. video_device g = Some h \<or> audio_device g = Some h \<longrightarrow> \<not> close_raises env h"
  shows "fst (gadget_stop env g)"
    and "video_device (snd (gadget_stop env g)) = None"
    and "audio_device (snd (gadget_stop env g)) = None"
    and "\<not> gadget_running (snd (gadget_stop env g))"
    and "close_calls (snd (gadget_stop env g)) =
           close_calls g @ (case video_device g of None \<Rightarrow> [] | Some h \<Rightarrow> [h])
                         @ (case audio_device g of None \<Rightarrow> [] | Some h \<Rightarrow> [h])"
    and "gadget_configured g \<and> euid env = 0 \<and> unbind_write_ok env \<longrightarrow>
           udc_writes (snd (gadget_stop env g)) = udc_writes g @ [[]]"
  using assms
  by (auto simp: gadget_stop_def stop_body_def stop_close_video_cases stop_close_audio_cases
        disable_gadget_def Let_def split: option.splits)

lemma gadget_stop_failed:
  "\<not> fst (gadget_stop env g) \<Longrightarrow>
     (\<exists>h. (video_device g = Some h \<or> audio_device g = Some h) \<and> close_raises env h)
     \<and> gadget_running (snd (gadget_stop env g)) = gadget_running g
     \<and> udc_writes (snd (gadget_stop env g)) = udc_writes g"
  by (auto simp: gadget_stop_def stop_body_def stop_close_video_cases stop_close_audio_cases
        disable_gadget_def Let_def split: option.splits if_splits)

lemma gadget_stop_video_close_raises:
  "video_device g = Some h \<Longrightarrow> close_raises env h \<Longrightarrow>
     gadget_stop env g = (False, g\<lparr>close_calls := close_calls g @ [h]\<rparr>)"
  by (simp add: gadget_stop_def stop_body_def stop_close_video_cases)

lemma gadget_stop_close_raises:
  "(video_device g = Some h \<or> audio_device g = Some h) \<Longrightarrow> close_raises env h \<Longrightarrow>
     \<not> fst (gadget_stop env g)"
  by (auto simp: gadget_stop_def stop_body_def stop_close_video_cases stop_close_audio_cases
        Let_def split: option.splits)

lemma gadget_stop_audio_close_raises:
  "\<forall>hv. video_device g = Some hv \<longrightarrow> \<not> close_raises env hv \<Longrightarrow>
   audio_device g = Some ha \<Longrightarrow> close_raises env ha \<Longrightarrow>
     gadget_stop env g =
       (False,
        g\<lparr>close_calls :=
             close_calls g @ (case video_device g of None \<Rightarrow> [] | Some h \<Rightarrow> [h]) @ [ha],
          video_device := None\<rparr>)"
  by (auto simp: gadget_stop_def stop_body_def stop_close_video_cases stop_close_audio_cases
        Let_def split: option.splits)

text \<open>
  Claim C7, amended. \<open>stop\<close> returns a boolean and never raises. The empty binding is
  written only when provisioning had completed and the process is root, and then only
  after the handles were closed without error. When no \<open>close()\<close> raises, every open
  handle is closed and cleared, video first, and the gadget no longer runs. When the
  \<open>close()\<close> of a held handle raises, \<open>stop\<close> returns False and the rest of the
  teardown is left out: no unbind and the running flag as it was; when it was the video
  device, the audio device is untouched, and when it was the audio device, the video
  device has been closed and cleared and the audio field still holds its handle.
\<close>

theorem C7_gadget_stop_best_effort:
  "(udc_writes (snd (gadget_stop env g)) \<noteq> udc_writes g \<longrightarrow>
      gadget_configured g \<and> euid env = 0 \<and> fst (gadget_stop env g)
      \<and> udc_writes (snd (gadget_stop env g)) = udc_writes g @ [[]])
   \<and> ((\<forall>h. video_device g = Some h \<or> audio_device g = Some h \<longrightarrow> \<not> close_raises env h) \<longrightarrow>
        fst (gadget_stop env g)
        \<and> video_device (snd (gadget_stop env g)) = None
        \<and> audio_device (snd (gadget_stop env g)) = None
        \<and> \<not> gadget_running (snd (gadget_stop env g))
        \<and> close_calls (snd (gadget_stop env g)) =
             close_calls g @ (case video_device g of None \<Rightarrow> [] | Some h \<Rightarrow> [h])
                           @ (case audio_device g of None \<Rightarrow> [] | Some h \<Rightarrow> [h])
        \<and> (gadget_configured g \<and> euid env = 0 \<and> unbind_write_ok env \<longrightarrow>
             udc_writes (snd (gadget_stop env g)) = udc_writes g @ [[]]))
   \<and> (\<not> fst (gadget_stop env g) \<longrightarrow>
        (\<exists>h. (video_device g = Some h \<or> audio_device g = Some h) \<and> close_raises env h)
        \<and> gadget_running (snd (gadget_stop env g)) = gadget_running g
        \<and> udc_writes (snd (gadget_stop env g)) = udc_writes g)
   \<and> (\<forall>h. video_device g = Some h \<and> close_raises env h \<longrightarrow>
        gadget_stop env g = (False, g\<lparr>close_calls := close_calls g @ [h]\<rparr>))
   \<and> (\<forall>h. (video_device g = Some h \<or> audio_device g = Some h) \<and> close_raises env h \<longrightarrow>
        \<not> fst (gadget_stop env g))
   \<and> (\<forall>ha. (\<forall>hv. video_device g = Some hv \<longrightarrow> \<not> close_raises env hv)
          \<and> audio_device g = Some ha \<and> close_raises env ha \<longrightarrow>
        gadget_stop env g =
          (False,
           g\<lparr>close_calls :=
                close_calls g @ (case video_device g of None \<Rightarrow> [] | Some h \<Rightarrow> [h]) @ [ha],
             video_device := None\<rparr>))"
proof -
  have a: "udc_writes (snd (gadget_stop env g)) \<noteq> udc_writes g \<longrightarrow>
      gadget_configured g \<and> euid env = 0 \<and> fst (gadget_stop env g)
      \<and> udc_writes (snd (gadget_stop env g)) = udc_writes g @ [[]]"
    using gadget_stop_unbind_only_if [of env g] by blast
  have b: "(\<forall>h. video_device g = Some h \<or> audio_device g = Some h \<longrightarrow> \<not> close_raises env h) \<longrightarrow>
        fst (gadget_stop env g)
        \<and> video_device (snd (gadget_stop env g)) = None
        \<and> audio_device (snd (gadget_stop env g)) = None
        \<and> \<not> gadget_running (snd (gadget_stop env g))
        \<and> close_calls (snd (gadget_stop env g)) =
             close_calls g @ (case video_device g of None \<Rightarrow> [] | Some h \<Rightarrow> [h])
                           @ (case audio_device g of None \<Rightarrow> [] | Some h \<Rightarrow> [h])
        \<and> (gadget_configured g \<and> euid env = 0 \<and> unbind_write_ok env \<longrightarrow>
             udc_writes (snd (gadget_stop env g)) = udc_writes g @ [[]])"
    using gadget_stop_clean [of g env] by blast
  have c: "\<not> fst (gadget_stop env g) \<longrightarrow>
        (\<exists>h. (video_device g = Some h \<or> audio_device g = Some h) \<and> close_raises env h)
        \<and> gadget_running (snd (gadget_stop env g)) = gadget_running g
        \<and> udc_writes (snd (gadget_stop env g)) = udc_writes g"
    using gadget_stop_failed [of env g] by blast
  have d: "\<forall>h. video_device g = Some h \<and> close_raises env h \<longrightarrow>
        gadget_stop env g = (False, g\<lparr>close_calls := close_calls g @ [h]\<rparr>)"
    using gadget_stop_video_close_raises [of g _ env] by blast
  have e: "\<forall>h. (video_device g = Some h \<or> audio_device g = Some h) \<and> close_raises env h \<longrightarrow>
        \<not> fst (gadget_stop env g)"
    using gadget_stop_close_raises [of g _ env] by blast
  have f: "\<forall>ha. (\<forall>hv. video_device g = Some hv \<longrightarrow> \<not> close_raises env hv)
          \<and> audio_device g = Some ha \<and> close_raises env ha \<longrightarrow>
        gadget_stop env g =
          (False,
           g\<lparr>close_calls :=
                close_calls g @ (case video_device g of None \<Rightarrow> [] | Some h \<Rightarrow> [h]) @ [ha],
             video_device := None\<rparr>)"
    using gadget_stop_audio_close_raises [of g env] by blast
  from a b c d e f show ?thesis by (intro conjI)
qed

theorem C7_witness:
  "\<not> close_raises (machine 0 first_only first_only) (VideoDev 0)
   \<and> \<not> close_raises (machine 0 first_only first_only) (AudioDev 0)
   \<and> fst (gadget_stop (machine 0 first_only first_only) running_gadget)
   \<and> video_device (snd (gadget_stop (machine 0 first_only first_only) running_gadget)) = None
   \<and> audio_device (snd (gadget_stop (machine 0 first_only first_only) running_gadget)) = None
   \<and> \<not> gadget_running (snd (gadget_stop (machine 0 first_only first_only) running_gadget))
   \<and> close_calls (snd (gadget_stop (machine 0 first_only first_only) running_gadget))
       = [VideoDev 0, AudioDev 0]
   \<and> udc_writes (snd (gadget_stop (machine 0 first_only first_only) running_gadget))
       = [''fe980000.usb'', []]
   \<and> close_raises audio_close_fails (AudioDev 0)
   \<and> \<not> close_raises audio_close_fails (VideoDev 0)
   \<and> gadget_stop audio_close_fails running_gadget =
       (False, running_gadget\<lparr>close_calls := [VideoDev 0, AudioDev 0], video_device := None\<rparr>)
   \<and> audio_device (snd (gadget_stop audio_close_fails running_gadget)) = Some (AudioDev 0)
   \<and> gadget_running (snd (gadget_stop audio_close_fails running_gadget))
   \<and> udc_writes (snd (gadget_stop audio_close_fails running_gadget)) = [''fe980000.usb'']"
proof -
  let ?env = "machine 0 first_only first_only"
  have nr: "\<not> close_raises ?env (VideoDev 0)" "\<not> close_raises ?env (AudioDev 0)"
    by (simp_all add: machine_def)
  have dev: "video_device running_gadget = Some (VideoDev 0)"
    "audio_device running_gadget = Some (AudioDev 0)"
    "close_calls running_gadget = []" "udc_writes running_gadget = [''fe980000.usb'']"
    "gadget_configured running_gadget"
    by (simp_all add: running_gadget_def gadget_init_def)
  have run: "gadget_running running_gadget"
    by (simp add: running_gadget_def gadget_init_def)
  have env: "euid ?env = 0" "unbind_write_ok ?env"
    by (simp_all add: machine_def)
  have quiet: "\<forall>h. video_device running_gadget = Some h \<or> audio_device running_gadget = Some h
                 \<longrightarrow> \<not> close_raises ?env h"
    using nr dev by auto
  have "fst (gadget_stop ?env running_gadget)
        \<and> video_device (snd (gadget_stop ?env running_gadget)) = None
        \<and> audio_device (snd (gadget_stop ?env running_gadget)) = None
        \<and> \<not> gadget_running (snd (gadget_stop ?env running_gadget))
        \<and> close_calls (snd (gadget_stop ?env running_gadget)) =
             close_calls running_gadget
               @ (case video_device running_gadget of None \<Rightarrow> [] | Some h \<Rightarrow> [h])
               @ (case audio_device running_gadget of None \<Rightarrow> [] | Some h \<Rightarrow> [h])
        \<and> udc_writes (snd (gadget_stop ?env running_gadget)) = udc_writes running_gadget @ [[]]"
    using C7_gadget_stop_best_effort [of ?env running_gadget] quiet dev(5) env by blast
  then have clean: "fst (gadget_stop ?env running_gadget)
        \<and> video_device (snd (gadget_stop ?env running_gadget)) = None
        \<and> audio_device (snd (gadget_stop ?env running_gadget)) = None
        \<and> \<not> gadget_running (snd (gadget_stop ?env running_gadget))
        \<and> close_calls (snd (gadget_stop ?env running_gadget)) = [VideoDev 0, AudioDev 0]
        \<and> udc_writes (snd (gadget_stop ?env running_gadget)) = [''fe980000.usb'', []]"
    unfolding dev by simp
  have ar: "close_raises audio_close_fails (AudioDev 0)"
    "\<not> close_raises audio_close_fails (VideoDev 0)"
    by (simp_all add: audio_close_fails_def)
  have vq: "\<forall>hv. video_device running_gadget = Some hv \<longrightarrow> \<not> close_raises audio_close_fails hv"
    using ar dev by auto
  have "gadget_stop audio_close_fails running_gadget =
          (False,
           running_gadget\<lparr>close_calls :=
                close_calls running_gadget
                  @ (case video_device running_gadget of None \<Rightarrow> [] | Some h \<Rightarrow> [h])
                  @ [AudioDev 0],
             video_device := None\<rparr>)"
    using C7_gadget_stop_best_effort [of audio_close_fails running_gadget] vq dev(2) ar(1)
    by blast
  then have failed: "gadget_stop audio_close_fails running_gadget =
       (False, running_gadget\<lparr>close_calls := [VideoDev 0, AudioDev 0], video_device := None\<rparr>)"
    unfolding dev by simp
  have after: "audio_device (snd (gadget_stop audio_close_fails running_gadget)) = Some (AudioDev 0)"
    "gadget_running (snd (gadget_stop audio_close_fails running_gadget))"
    "udc_writes (snd (gadget_stop audio_close_fails running_gadget)) = [''fe980000.usb'']"
    unfolding failed using dev run by simp_all
  from nr clean ar failed after show ?thesis by (intro conjI) blast+
qed

section \<open>Tracks and disabled audio\<close>

lemma setup_video_codecs_audio_track:
  "audio_track (snd (setup_video_codecs avail cfg s)) = audio_track s"
  by (simp add: setup_video_codecs_def Let_def split: option.splits)

lemma setup_audio_codecs_audio_track:
  "audio_track (snd (setup_audio_codecs avail cfg s)) = audio_track s"
  by (simp add: setup_audio_codecs_def Let_def split: option.splits)

lemma start_audio_track: "audio_track (snd (start avail cfg s)) = audio_track s"
proof -
  obtain ok1 s1 where v: "setup_video_codecs avail cfg s = (ok1, s1)"
    by (cases "setup_video_codecs avail cfg s")
  obtain ok2 s2 where a: "setup_audio_codecs avail cfg s1 = (ok2, s2)"
    by (cases "setup_audio_codecs avail cfg s1")
  note v' = setup_video_codecs_audio_track [of avail cfg s, unfolded v snd_conv]
  note a' = setup_audio_codecs_audio_track [of avail cfg s1, unfolded a snd_conv]
  show ?thesis
    using v a v' a' by (simp add: start_def create_task_def Let_def)
qed

lemma queue_step_audio_track: "audio_track (queue_step cfg e s) = audio_track s"
  by (cases e)
     (simp_all add: video_on_frame_def audio_on_frame_def video_popleft_def
        audio_popleft_def Let_def)

lemma reachable_audio_disabled:
  "reachable cfg s \<Longrightarrow> \<not> AUDIO_ENABLED cfg \<Longrightarrow> audio_track s = None"
proof (induction rule: reachable.induct)
  case r_init
  show ?case by (simp add: init_def)
next
  case (r_start s avail)
  then show ?case by (simp add: start_audio_track)
next
  case (r_stop s)
  show ?case by (simp add: stop_def cancel_task_def Let_def split: option.splits)
next
  case (r_add_video s t)
  then show ?case by (simp add: add_video_track_def)
next
  case (r_remove_video s t)
  then show ?case by (simp add: remove_video_track_def)
next
  case (r_add_audio s t)
  then show ?case by (simp add: add_audio_track_def)
next
  case (r_remove_audio s t)
  then show ?case by (simp add: remove_audio_track_def)
next
  case (r_set_gadget s)
  then show ?case by (simp add: set_usb_gadget_def)
next
  case (r_queue s e)
  then show ?case by (simp add: queue_step_audio_track)
qed

text \<open>
  Claim C8. For both media kinds, detaching a source other than the attached one leaves
  the whole pipeline as it is, and detaching the attached source clears the
  registration and nothing else. For audio the second half is about the states a
  pipeline can reach: with audio disabled no source is ever attached.
\<close>

theorem C8_stale_detach_is_noop:
  "(video_track s = Some y \<and> y \<noteq> x \<longrightarrow> remove_video_track x s = s)
   \<and> (audio_track s = Some y \<and> y \<noteq> x \<longrightarrow> remove_audio_track cfg x s = s)
   \<and> (video_track s = Some x \<longrightarrow> remove_video_track x s = s\<lparr>video_track := None\<rparr>)
   \<and> (reachable cfg s \<and> audio_track s = Some x \<longrightarrow>
        remove_audio_track cfg x s = s\<lparr>audio_track := None\<rparr>)"
proof -
  have "reachable cfg s \<and> audio_track s = Some x \<longrightarrow> AUDIO_ENABLED cfg"
    using reachable_audio_disabled [of cfg s] by fastforce
  then show ?thesis
    by (auto simp: remove_video_track_def remove_audio_track_def)
qed

theorem C8_witness:
  "video_track (add_video_track (2::nat) (init default_config :: (nat, nat) media_pipeline)) = Some 2
   \<and> remove_video_track 1 (add_video_track 2 (init default_config :: (nat, nat) media_pipeline))
       = add_video_track 2 (init default_config)
   \<and> video_track (remove_video_track 2
        (add_video_track 2 (init default_config :: (nat, nat) media_pipeline))) = None
   \<and> reachable default_config
        (add_audio_track default_config 2 (init default_config :: (nat, nat) media_pipeline))
   \<and> audio_track (remove_audio_track default_config 2
        (add_audio_track default_config 2 (init default_config :: (nat, nat) media_pipeline))) = None
   \<and> remove_audio_track default_config 1
        (add_audio_track default_config 2 (init default_config :: (nat, nat) media_pipeline))
       = add_audio_track default_config 2 (init default_config)"
proof -
  let ?s0 = "init default_config :: (nat, nat) media_pipeline"
  let ?v = "add_video_track 2 ?s0"
  let ?a = "add_audio_track default_config 2 ?s0"
  have v: "video_track ?v = Some 2"
    by (simp add: add_video_track_def)
  have a: "audio_track ?a = Some 2"
    by (simp add: add_audio_track_def default_config_def)
  have r: "reachable default_config ?a"
    by (intro reachable.r_add_audio reachable.r_init)
  have ne: "(2::nat) \<noteq> 1"
    by simp
  have 1: "remove_video_track 1 ?v = ?v"
    using C8_stale_detach_is_noop [of ?v 2 1 default_config] v ne by blast
  have 2: "remove_video_track 2 ?v = ?v\<lparr>video_track := None\<rparr>"
    using C8_stale_detach_is_noop [of ?v 2 2 default_config] v by blast
  have 3: "remove_audio_track default_config 2 ?a = ?a\<lparr>audio_track := None\<rparr>"
    using C8_stale_detach_is_noop [of ?a 2 2 default_config] a r by blast
  have 4: "remove_audio_track default_config 1 ?a = ?a"
    using C8_stale_detach_is_noop [of ?a 2 1 default_config] a ne by blast
  show ?thesis
    unfolding 1 2 3 4 using v r by simp
qed

section \<open>Writes and the processing loop\<close>













text \<open>
  Claim C10. With audio disabled in the configuration, attaching and detaching an audio
  track leave the pipeline as it is, writing an audio sample returns False with nothing
  written, and the status reports audio as not enabled, with no track, zero counts and
  an empty queue, whatever the audio fields of the pipeline hold.
\<close>

theorem C10_audio_disabled_noop:
  assumes "\<not> AUDIO_ENABLED cfg"
  shows "add_audio_track cfg t s = s
     \<and> remove_audio_track cfg t s = s
     \<and> write_audio_sample cfg io_ok audio_data g = (False, g)
     \<and> st_audio (get_status cfg s) =
         \<lparr>as_enabled = False, as_track_active = False, as_samples_received = 0,
          as_samples_dropped = 0, as_queue_size = 0\<rparr>"
  using assms
  by (simp add: add_audio_track_def remove_audio_track_def write_audio_sample_def
        get_status_def)

theorem C10_witness:
  "\<not> AUDIO_ENABLED video_only_config
   \<and> audio_sample_queue heard_pipeline = [7] \<and> audio_track heard_pipeline = Some 3
   \<and> add_audio_track video_only_config 4 heard_pipeline = heard_pipeline
   \<and> remove_audio_track video_only_config 3 heard_pipeline = heard_pipeline
   \<and> write_audio_sample video_only_config True [1] running_gadget = (False, running_gadget)
   \<and> st_audio (get_status video_only_config heard_pipeline) =
         \<lparr>as_enabled = False, as_track_active = False, as_samples_received = 0,
          as_samples_dropped = 0, as_queue_size = 0\<rparr>"
proof -
  have off: "\<not> AUDIO_ENABLED video_only_config"
    by (simp add: video_only_config_def)
  have prior: "audio_sample_queue heard_pipeline = [7]" "audio_track heard_pipeline = Some 3"
    by (simp_all add: heard_pipeline_def add_audio_track_def audio_on_frame_def
          deque_append_def audio_maxlen_def default_config_def init_def Let_def)
  show ?thesis
    using off prior
      C10_audio_disabled_noop [OF off, of 4 heard_pipeline True "[1]" running_gadget]
      C10_audio_disabled_noop [OF off, of 3 heard_pipeline True "[1]" running_gadget]
    by simp
qed

end
